theory Spec2Isabelle
  imports Main "HOL-Library.Word" "HOL-Library.Code_Target_Nat"
begin

section \<open>JavaScript values the handler works with\<close>

text \<open>
  The image-processing Lambda (\<^verbatim>\<open>exports.handler\<close>, lines 61-181 of
  \<^verbatim>\<open>src/bin/image-optimization.ts\<close>) reads environment variables, header values
  and the values of the operations object; each is either \<^verbatim>\<open>undefined\<close> or a
  string. A string is a list of code units below 256.
\<close>

datatype js_val = Undefined | Str string

text \<open>JavaScript truthiness of such a value: \<^verbatim>\<open>undefined\<close> and \<^verbatim>\<open>''\<close> are falsy.\<close>

fun truthy :: "js_val \<Rightarrow> bool" where
  "truthy Undefined = False"
| "truthy (Str s) = (s \<noteq> [])"

text \<open>
  The numbers the handler makes all come from \<^verbatim>\<open>parseInt\<close>: \<^verbatim>\<open>NaN\<close>, an
  integer that a double holds exactly, or an infinity. (\<^verbatim>\<open>-0\<close> is \<open>Num 0\<close>.)
\<close>

datatype js_number = NaN | Num int | PosInfinity | NegInfinity

type_synonym buffer = "8 word list"

datatype js_error = JsError string

subsection \<open>\<^verbatim>\<open>String.prototype.split\<close> with a one-character separator, \<^verbatim>\<open>Array.prototype.join\<close>\<close>

fun split_on :: "char \<Rightarrow> string \<Rightarrow> string list" where
  "split_on sep [] = [[]]"
| "split_on sep (c # cs) =
     (if c = sep then [] # split_on sep cs
      else (case split_on sep cs of
              [] \<Rightarrow> [[c]]
            | s # ss \<Rightarrow> (c # s) # ss))"

fun join :: "string \<Rightarrow> string list \<Rightarrow> string" where
  "join sep [] = []"
| "join sep [s] = s"
| "join sep (s # t # ts) = s @ sep @ join sep (t # ts)"

subsection \<open>\<^verbatim>\<open>parseInt\<close> with no radix argument\<close>

definition is_js_whitespace :: "char \<Rightarrow> bool" where
  "is_js_whitespace c =
     (let n = (of_char c :: nat) in (9 \<le> n \<and> n \<le> 13) \<or> n = 32 \<or> n = 160)"

definition digit_value :: "char \<Rightarrow> nat option" where
  "digit_value c =
     (let n = (of_char c :: nat) in
      if 48 \<le> n \<and> n \<le> 57 then Some (n - 48)
      else if 97 \<le> n \<and> n \<le> 122 then Some (n - 87)
      else if 65 \<le> n \<and> n \<le> 90 then Some (n - 55)
      else None)"

definition radix_digit :: "nat \<Rightarrow> char \<Rightarrow> nat option" where
  "radix_digit r c =
     (case digit_value c of
        None \<Rightarrow> None
      | Some d \<Rightarrow> if d < r then Some d else None)"

text \<open>The longest prefix of radix-\<open>r\<close> digits, as digit values.\<close>

fun digits_prefix :: "nat \<Rightarrow> string \<Rightarrow> nat list" where
  "digits_prefix r [] = []"
| "digits_prefix r (c # cs) =
     (case radix_digit r c of
        None \<Rightarrow> []
      | Some d \<Rightarrow> d # digits_prefix r cs)"

definition digits_value :: "nat \<Rightarrow> nat list \<Rightarrow> nat" where
  "digits_value r ds = foldl (\<lambda>acc d. acc * r + d) 0 ds"

text \<open>The number of binary digits of a natural number.\<close>

fun bit_length :: "nat \<Rightarrow> nat" where
  "bit_length n = (if n = 0 then 0 else Suc (bit_length (n div 2)))"

declare bit_length.simps [simp del]

text \<open>
  The double nearest to a natural number, ties to the even mantissa: a number below
  \<open>2^53\<close> is itself; above, the bits past the 53rd are rounded away. \<open>None\<close> is
  \<^verbatim>\<open>Infinity\<close>: the rounded value does not fit below \<open>2^1024\<close>.
\<close>

definition round_to_double :: "nat \<Rightarrow> nat option" where
  "round_to_double n =
     (if n < 2 ^ 53 then Some n
      else
        (let e = bit_length n - 53;
             q = n div 2 ^ e;
             r = n mod 2 ^ e;
             m = (if 2 * r > 2 ^ e \<or> (2 * r = 2 ^ e \<and> odd q) then q + 1 else q);
             x = m * 2 ^ e
         in if x < 2 ^ 1024 then Some x else None))"

text \<open>
  ECMAScript \<^verbatim>\<open>parseInt(string)\<close>: strip leading white space, read a sign, strip a
  \<^verbatim>\<open>0x\<close>/\<^verbatim>\<open>0X\<close> prefix (then the radix is 16, otherwise 10), take the longest
  prefix of digits; no digit gives \<^verbatim>\<open>NaN\<close>. The value of the digits becomes a
  number by rounding to the nearest double. (Past 20 significant decimal digits
  ECMAScript lets an implementation read the further digits as zeros; the model rounds
  the exact value.)
\<close>

definition parseInt_string :: "string \<Rightarrow> js_number" where
  "parseInt_string inputString =
     (let s = dropWhile is_js_whitespace inputString;
          negative = (case s of [] \<Rightarrow> False | c # _ \<Rightarrow> c = CHR ''-'');
          s1 = (case s of
                  [] \<Rightarrow> s
                | c # cs \<Rightarrow> if c = CHR ''+'' \<or> c = CHR ''-'' then cs else s);
          hex = (case s1 of
                   a # b # _ \<Rightarrow> a = CHR ''0'' \<and> (b = CHR ''x'' \<or> b = CHR ''X'')
                 | _ \<Rightarrow> False);
          r = (if hex then 16 else 10);
          s2 = (if hex then drop 2 s1 else s1);
          z = digits_prefix r s2
      in if z = [] then NaN
         else
           (case round_to_double (digits_value r z) of
              None \<Rightarrow> if negative then NegInfinity else PosInfinity
            | Some x \<Rightarrow> Num ((if negative then - 1 else 1) * int x)))"

text \<open>The argument is first converted to a string: \<^verbatim>\<open>undefined\<close> reads \<^verbatim>\<open>"undefined"\<close>.\<close>

fun parseInt :: "js_val \<Rightarrow> js_number" where
  "parseInt Undefined = parseInt_string ''undefined''"
| "parseInt (Str s) = parseInt_string s"

section \<open>The Lambda's configuration, its event and its response\<close>

text \<open>The module-level constants read from \<^verbatim>\<open>process.env\<close> (lines 55-59).\<close>

record config =
  S3_ORIGINAL_IMAGE_BUCKET :: js_val
  S3_TRANSFORMED_IMAGE_BUCKET :: js_val
  TRANSFORMED_IMAGE_CACHE_TTL :: js_val
  SECRET_KEY :: js_val
  LOG_TIMING :: js_val

text \<open>
  The event of a Lambda function URL. \<^verbatim>\<open>event.headers\<close> is an object of strings;
  the handler itself tests \<^verbatim>\<open>event.requestContext\<close> and
  \<^verbatim>\<open>event.requestContext.http\<close> for absence, so they are optional here, and
  \<^verbatim>\<open>method\<close> and \<^verbatim>\<open>path\<close> may be \<^verbatim>\<open>undefined\<close>.
\<close>

record http_context =
  "method" :: js_val
  path :: js_val

record request_context =
  http :: "http_context option"

record event =
  headers :: "string \<rightharpoonup> string"
  requestContext :: "request_context option"

text \<open>\<^verbatim>\<open>event.headers[name]\<close>: \<^verbatim>\<open>undefined\<close> when the object has no such property.\<close>

definition header :: "event \<Rightarrow> string \<Rightarrow> js_val" where
  "header ev name = (case headers ev name of None \<Rightarrow> Undefined | Some v \<Rightarrow> Str v)"

text \<open>
  A response body is either a message or \<^verbatim>\<open>buffer.toString('base64')\<close>, kept as
  the buffer it encodes.
\<close>

datatype response_body = Text string | Base64 buffer

text \<open>
  The object the handler returns. \<^verbatim>\<open>sendError\<close> returns only \<^verbatim>\<open>statusCode\<close>
  and \<^verbatim>\<open>body\<close>; the other two properties are then absent (\<open>None\<close>).
\<close>

record response =
  statusCode :: nat
  body :: response_body
  isBase64Encoded :: "bool option"
  response_headers :: "(string \<times> js_val) list option"

section \<open>The collaborators: S3, sharp, the clock, the console\<close>

record get_object_params =
  Bucket :: js_val
  Key :: string

record get_object_output =
  Body :: buffer
  ContentType :: js_val

record put_object_params =
  put_Body :: buffer
  put_Bucket :: js_val
  put_Key :: string
  put_ContentType :: js_val
  put_Metadata :: "(string \<times> js_val) list"

record resizing_options =
  width :: "js_number option"
  height :: "js_number option"

text \<open>
  The calls chained on the sharp instance inside the \<^verbatim>\<open>try\<close> block, in order;
  \<^verbatim>\<open>toFormat\<close> carries the format string and, when given, the
  \<^verbatim>\<open>quality\<close> option.
\<close>

datatype sharp_call =
    Rotate
  | Resize resizing_options
  | ToFormat string "js_number option"

text \<open>
  What the outside world answers. \<open>sharp_constructor\<close> is \<^verbatim>\<open>Sharp(buffer)\<close>, which
  may throw; \<open>sharp_toBuffer\<close> is the chain of calls ended by \<^verbatim>\<open>toBuffer()\<close>, which
  throws or rejects with an error or yields the encoded bytes; \<open>elapsed i\<close> is the text
  of the \<open>i\<close>-th \<^verbatim>\<open>parseInt(performance.now() - startTime)\<close>. An awaited
  \<^verbatim>\<open>S3.getObject(...).promise()\<close> or \<^verbatim>\<open>S3.putObject(...).promise()\<close> is one call
  with one answer: the object or an error, nothing or an error.
\<close>

record world =
  s3_getObject :: "get_object_params \<Rightarrow> js_error + get_object_output"
  sharp_constructor :: "buffer \<Rightarrow> js_error option"
  sharp_toBuffer :: "buffer \<Rightarrow> sharp_call list \<Rightarrow> js_error + buffer"
  s3_putObject :: "put_object_params \<Rightarrow> js_error option"
  elapsed :: "nat \<Rightarrow> string"

datatype log_arg = LogString string | LogEvent event | LogError js_error

text \<open>
  What one invocation does to the outside, in order. \<open>CallToBuffer calls\<close> says that
  the \<^verbatim>\<open>try\<close> block ran with this chain of calls as the code writes it; when one of
  them throws, the later ones are not made, and the engine's answer is that error.
\<close>

datatype effect =
    ConsoleLog "log_arg list"
  | CallGetObject get_object_params
  | CallSharp buffer
  | CallToBuffer "sharp_call list"
  | CallPutObject put_object_params

text \<open>An invocation returns a response or ends with an uncaught exception.\<close>

datatype outcome = Returned response | Threw js_error

section \<open>The handler\<close>

text \<open>\<^verbatim>\<open>sendError\<close> (lines 183-190): two log lines, then the error object.\<close>

definition sendError :: "nat \<Rightarrow> string \<Rightarrow> log_arg \<Rightarrow> outcome \<times> effect list" where
  "sendError code message error =
     (Returned \<lparr>statusCode = code, body = Text message,
                isBase64Encoded = None, response_headers = None\<rparr>,
      [ConsoleLog [LogString ''APPLICATION ERROR'', LogString message],
       ConsoleLog [error]])"

text \<open>
  Lines 103-109: the operations object. Every segment of the token assigns
  \<^verbatim>\<open>operations[kv[0]] = kv[1]\<close>, where \<^verbatim>\<open>kv[1]\<close> is \<^verbatim>\<open>undefined\<close> for a
  segment with no \<^verbatim>\<open>=\<close>. On the plain object \<^verbatim>\<open>{}\<close> an assignment to
  \<^verbatim>\<open>__proto__\<close> of a string or of \<^verbatim>\<open>undefined\<close> creates no property.
\<close>

type_synonym operations = "string \<rightharpoonup> js_val"

definition assign_operation :: "string \<Rightarrow> operations \<Rightarrow> operations" where
  "assign_operation operation operations =
     (let operationKV = split_on CHR ''='' operation;
          k = (case operationKV of [] \<Rightarrow> [] | a # _ \<Rightarrow> a);
          v = (case operationKV of _ # b # _ \<Rightarrow> Str b | _ \<Rightarrow> Undefined)
      in if k = ''__proto__'' then operations else operations(k \<mapsto> v))"

definition parse_operations :: "string \<Rightarrow> operations" where
  "parse_operations operationsPrefix =
     fold assign_operation (split_on CHR '','' operationsPrefix) Map.empty"

text \<open>\<^verbatim>\<open>operations[name]\<close> for a name that \<^verbatim>\<open>Object.prototype\<close> does not have.\<close>

definition get_op :: "operations \<Rightarrow> string \<Rightarrow> js_val" where
  "get_op operations name = (case operations name of None \<Rightarrow> Undefined | Some v \<Rightarrow> v)"

text \<open>The \<^verbatim>\<open>switch\<close> of lines 128-136: the content type and \<^verbatim>\<open>isLossy\<close>.\<close>

definition format_switch :: "string \<Rightarrow> string \<times> bool" where
  "format_switch f =
     (if f = ''jpeg'' then (''image/jpeg'', True)
      else if f = ''svg'' then (''image/svg+xml'', False)
      else if f = ''gif'' then (''image/gif'', False)
      else if f = ''webp'' then (''image/webp'', True)
      else if f = ''png'' then (''image/png'', False)
      else if f = ''avif'' then (''image/avif'', True)
      else (''image/jpeg'', True))"

text \<open>Lines 119-123: \<^verbatim>\<open>resizingOptions\<close>.\<close>

definition resizingOptions :: "operations \<Rightarrow> resizing_options" where
  "resizingOptions operations =
     \<lparr>width = (if truthy (get_op operations ''width'')
               then Some (parseInt (get_op operations ''width'')) else None),
      height = (if truthy (get_op operations ''height'')
                then Some (parseInt (get_op operations ''height'')) else None)\<rparr>"

text \<open>
  Lines 116-142: the calls made on the sharp instance, and the content type after them.
  \<^verbatim>\<open>if (resizingOptions)\<close> tests an object, which is always truthy, so
  \<^verbatim>\<open>resize\<close> is always called.
\<close>

definition transform_calls :: "js_val \<Rightarrow> operations \<Rightarrow> sharp_call list \<times> js_val" where
  "transform_calls contentType operations =
     (let calls = [Rotate, Resize (resizingOptions operations)] in
      case get_op operations ''format'' of
        Undefined \<Rightarrow> (calls, contentType)
      | Str f \<Rightarrow>
          if f = [] then (calls, contentType)
          else
            (let (ct, isLossy) = format_switch f in
             if truthy (get_op operations ''quality'') \<and> isLossy
             then (calls @ [ToFormat f (Some (parseInt (get_op operations ''quality'')))], Str ct)
             else (calls @ [ToFormat f None], Str ct)))"

text \<open>Lines 90, 113, 148, 168: the timing line.\<close>

definition timingLog :: "world \<Rightarrow> string" where
  "timingLog w =
     ''perf '' @ elapsed w 0 @ '' '' @ elapsed w 1 @ '' '' @ elapsed w 2 @ '' ''"

text \<open>Lines 168-180: the timing line, if asked for, and the success response.\<close>

definition respond :: "config \<Rightarrow> world \<Rightarrow> buffer \<Rightarrow> js_val \<Rightarrow> outcome \<times> effect list" where
  "respond cfg w sharpImage contentType =
     (Returned \<lparr>statusCode = 200, body = Base64 sharpImage,
                isBase64Encoded = Some True,
                response_headers =
                  Some [(''Content-Type'', contentType),
                        (''Cache-Control'', TRANSFORMED_IMAGE_CACHE_TTL cfg)]\<rparr>,
      (if LOG_TIMING cfg = Str ''true'' then [ConsoleLog [LogString (timingLog w)]] else []))"

text \<open>Lines 151-166: the upload of the transformed image, when a bucket is configured.\<close>

definition upload_and_respond ::
  "config \<Rightarrow> world \<Rightarrow> string \<Rightarrow> string \<Rightarrow> buffer \<Rightarrow> js_val \<Rightarrow> outcome \<times> effect list" where
  "upload_and_respond cfg w originalImagePath operationsPrefix sharpImage contentType =
     (if truthy (S3_TRANSFORMED_IMAGE_BUCKET cfg) then
        (let params = \<lparr>put_Body = sharpImage,
                       put_Bucket = S3_TRANSFORMED_IMAGE_BUCKET cfg,
                       put_Key = originalImagePath @ ''/'' @ operationsPrefix,
                       put_ContentType = contentType,
                       put_Metadata = [(''cache-control'', TRANSFORMED_IMAGE_CACHE_TTL cfg)]\<rparr>
         in case s3_putObject w params of
              Some error \<Rightarrow>
                (let (r, t) = sendError 500 ''Could not upload transformed image to S3.''
                                (LogError error)
                 in (r, CallPutObject params # t))
            | None \<Rightarrow>
                (let (r, t) = respond cfg w sharpImage contentType
                 in (r, CallPutObject params # t)))
      else respond cfg w sharpImage contentType)"

text \<open>Lines 93-146: download, parse the operations, transform.\<close>

definition process_image ::
  "config \<Rightarrow> world \<Rightarrow> string \<Rightarrow> string \<Rightarrow> outcome \<times> effect list" where
  "process_image cfg w originalImagePath operationsPrefix =
     (let request = \<lparr>Bucket = S3_ORIGINAL_IMAGE_BUCKET cfg, Key = originalImagePath\<rparr> in
      case s3_getObject w request of
        Inl error \<Rightarrow>
          (let (r, t) = sendError 500 ''Error downloading original image.'' (LogError error)
           in (r, CallGetObject request # t))
      | Inr originalImage \<Rightarrow>
          (let operations = parse_operations operationsPrefix in
           case sharp_constructor w (Body originalImage) of
             Some error \<Rightarrow>
               (Threw error, [CallGetObject request, CallSharp (Body originalImage)])
           | None \<Rightarrow>
               (let (calls, contentType) =
                      transform_calls (ContentType originalImage) operations;
                    trace = [CallGetObject request, CallSharp (Body originalImage),
                             CallToBuffer calls]
                in case sharp_toBuffer w (Body originalImage) calls of
                     Inl error \<Rightarrow>
                       (let (r, t) = sendError 500 ''error transforming image'' (LogError error)
                        in (r, trace @ t))
                   | Inr sharpImage \<Rightarrow>
                       (let (r, t) = upload_and_respond cfg w originalImagePath
                                       operationsPrefix sharpImage contentType
                        in (r, trace @ t)))))"

text \<open>
  Lines 79-87: the path. \<^verbatim>\<open>split\<close> of a string has at least one element, which
  \<^verbatim>\<open>pop\<close> takes; \<^verbatim>\<open>shift\<close> on an empty array does nothing. Calling
  \<^verbatim>\<open>split\<close> on \<^verbatim>\<open>undefined\<close> throws a \<^verbatim>\<open>TypeError\<close> that nothing catches.
\<close>

definition path_gate :: "config \<Rightarrow> world \<Rightarrow> js_val \<Rightarrow> outcome \<times> effect list" where
  "path_gate cfg w p =
     (case p of
        Undefined \<Rightarrow> (Threw (JsError ''TypeError''), [])
      | Str s \<Rightarrow>
          (let imagePathArray = split_on CHR ''/'' s;
               operationsPrefix = last imagePathArray;
               originalImagePath = join ''/'' (tl (butlast imagePathArray))
           in process_image cfg w originalImagePath operationsPrefix))"

text \<open>Lines 61-77: the two gates, then the rest.\<close>

definition handler :: "config \<Rightarrow> world \<Rightarrow> event \<Rightarrow> outcome \<times> effect list" where
  "handler cfg w ev =
     (if \<not> truthy (header ev ''x-origin-secret-header'')
         \<or> \<not> (header ev ''x-origin-secret-header'' = SECRET_KEY cfg)
      then sendError 403 ''Request unauthorized.'' (LogEvent ev)
      else
        (case requestContext ev of
           None \<Rightarrow> sendError 400 ''Only GET method is supported.'' (LogEvent ev)
         | Some rc \<Rightarrow>
             (case http rc of
                None \<Rightarrow> sendError 400 ''Only GET method is supported.'' (LogEvent ev)
              | Some h \<Rightarrow>
                  if \<not> (method h = Str ''GET'')
                  then sendError 400 ''Only GET method is supported.'' (LogEvent ev)
                  else path_gate cfg w (path h))))"

section \<open>Reading an invocation\<close>

text \<open>The status code of an outcome, when it is a response.\<close>

fun status_of :: "outcome \<Rightarrow> nat option" where
  "status_of (Returned r) = Some (statusCode r)"
| "status_of (Threw e) = None"

text \<open>The \<^verbatim>\<open>Content-Type\<close> header of an outcome, when it is a response with headers.\<close>

fun content_type_of :: "outcome \<Rightarrow> js_val option" where
  "content_type_of (Returned r) =
     (case response_headers r of
        None \<Rightarrow> None
      | Some hs \<Rightarrow> map_of hs ''Content-Type'')"
| "content_type_of (Threw e) = None"

fun is_fetch :: "effect \<Rightarrow> bool" where
  "is_fetch (CallGetObject p) = True"
| "is_fetch e = False"

fun is_console :: "effect \<Rightarrow> bool" where
  "is_console (ConsoleLog args) = True"
| "is_console e = False"

text \<open>How many times the original store was read.\<close>

definition fetch_count :: "effect list \<Rightarrow> nat" where
  "fetch_count t = length (filter is_fetch t)"

text \<open>\<^verbatim>\<open>event.requestContext.http.method\<close>, \<^verbatim>\<open>undefined\<close> when a link is missing.\<close>

definition request_method :: "event \<Rightarrow> js_val" where
  "request_method ev =
     (case requestContext ev of
        None \<Rightarrow> Undefined
      | Some rc \<Rightarrow> (case http rc of None \<Rightarrow> Undefined | Some h \<Rightarrow> method h))"

text \<open>\<^verbatim>\<open>event.requestContext.http.path\<close>, \<^verbatim>\<open>undefined\<close> when a link is missing.\<close>

definition request_path :: "event \<Rightarrow> js_val" where
  "request_path ev =
     (case requestContext ev of
        None \<Rightarrow> Undefined
      | Some rc \<Rightarrow> (case http rc of None \<Rightarrow> Undefined | Some h \<Rightarrow> path h))"

text \<open>
  The request path as the spec reads it,
  \<^verbatim>\<open>/<routingPrefix>/<originalImagePath...>/<operationsToken>\<close>: of the segments
  between slashes, the one after the leading slash is the routing prefix, the last is
  the operations token, and those in between, joined again, are the original path.
\<close>

definition spec_routing_prefix :: "string \<Rightarrow> string" where
  "spec_routing_prefix p =
     (case split_on CHR ''/'' p of
        _ # routingPrefix # _ \<Rightarrow> routingPrefix
      | _ \<Rightarrow> [])"

definition spec_original_path :: "string \<Rightarrow> string" where
  "spec_original_path p = join ''/'' (butlast (drop 2 (split_on CHR ''/'' p)))"

text \<open>The key/value pair a segment of the token stands for, and the pairs of a token.\<close>

definition segment_kv :: "string \<Rightarrow> string \<times> js_val" where
  "segment_kv operation =
     (case split_on CHR ''='' operation of
        [] \<Rightarrow> ([], Undefined)
      | [k] \<Rightarrow> (k, Undefined)
      | k # v # _ \<Rightarrow> (k, Str v))"

definition token_pairs :: "string \<Rightarrow> (string \<times> js_val) list" where
  "token_pairs operationsPrefix = map segment_kv (split_on CHR '','' operationsPrefix)"

text \<open>The value of the last pair with the given key, \<^verbatim>\<open>undefined\<close> when there is none.\<close>

definition last_value :: "string \<Rightarrow> (string \<times> js_val) list \<Rightarrow> js_val" where
  "last_value k kvs =
     (case filter (\<lambda>kv. fst kv = k) kvs of
        [] \<Rightarrow> Undefined
      | x # xs \<Rightarrow> snd (last (x # xs)))"

section \<open>A test double of the collaborators\<close>

text \<open>
  An engine that checks its arguments the way the sharp library documents them (a
  dimension is a positive integer, a format is one of its names, a quality is between 1
  and 100) and whose output records every call it was given.
\<close>

fun valid_dimension :: "js_number option \<Rightarrow> bool" where
  "valid_dimension None = True"
| "valid_dimension (Some (Num n)) = (0 < n)"
| "valid_dimension (Some x) = False"

fun valid_quality :: "js_number option \<Rightarrow> bool" where
  "valid_quality None = True"
| "valid_quality (Some (Num n)) = (1 \<le> n \<and> n \<le> 100)"
| "valid_quality (Some x) = False"

fun valid_call :: "sharp_call \<Rightarrow> bool" where
  "valid_call Rotate = True"
| "valid_call (Resize opts) = (valid_dimension (width opts) \<and> valid_dimension (height opts))"
| "valid_call (ToFormat f q) =
     (List.member [''jpeg'', ''jpg'', ''png'', ''webp'', ''avif'', ''gif'', ''svg'', ''tiff''] f
      \<and> valid_quality q)"

fun number_byte :: "js_number option \<Rightarrow> 8 word" where
  "number_byte None = 0"
| "number_byte (Some (Num n)) = word_of_int n"
| "number_byte (Some x) = 255"

fun call_bytes :: "sharp_call \<Rightarrow> buffer" where
  "call_bytes Rotate = [1]"
| "call_bytes (Resize opts) = [2, number_byte (width opts), number_byte (height opts)]"
| "call_bytes (ToFormat f q) = 3 # map (\<lambda>c. word_of_nat (of_char c)) f @ [number_byte q]"

definition test_sharp :: "buffer \<Rightarrow> sharp_call list \<Rightarrow> js_error + buffer" where
  "test_sharp input calls =
     (if list_all valid_call calls then Inr (input @ concat (map call_bytes calls))
      else Inl (JsError ''invalid parameter''))"

definition test_world :: world where
  "test_world =
     \<lparr>s3_getObject = (\<lambda>request.
         if Key request = ''images/rio/1.jpg''
         then Inr \<lparr>Body = [255, 216, 255], ContentType = Str ''image/jpeg''\<rparr>
         else Inl (JsError ''NoSuchKey'')),
      sharp_constructor = (\<lambda>input.
         if input = [] then Some (JsError ''Input Buffer is empty'') else None),
      sharp_toBuffer = test_sharp,
      s3_putObject = (\<lambda>params. None),
      elapsed = (\<lambda>i. ''1'')\<rparr>"

text \<open>The same world with a transformed store that refuses every write.\<close>

definition test_world_put_fails :: world where
  "test_world_put_fails =
     test_world\<lparr>s3_putObject := (\<lambda>params. Some (JsError ''AccessDenied''))\<rparr>"

definition test_config :: config where
  "test_config =
     \<lparr>S3_ORIGINAL_IMAGE_BUCKET = Str ''originals'',
      S3_TRANSFORMED_IMAGE_BUCKET = Str ''transformed'',
      TRANSFORMED_IMAGE_CACHE_TTL = Str ''max-age=31622400'',
      SECRET_KEY = Str ''s3cr3t'',
      LOG_TIMING = Str ''false''\<rparr>"

definition test_event :: "(string \<rightharpoonup> string) \<Rightarrow> js_val \<Rightarrow> js_val \<Rightarrow> event" where
  "test_event hs m p =
     \<lparr>headers = hs,
      requestContext = Some \<lparr>http = Some \<lparr>method = m, path = p\<rparr>\<rparr>\<rparr>"

text \<open>Headers that carry the secret of \<open>test_config\<close>.\<close>

definition ok_headers :: "string \<rightharpoonup> string" where
  "ok_headers = [''x-origin-secret-header'' \<mapsto> ''s3cr3t'']"

section \<open>Basic facts\<close>

lemma split_on_not_Nil: "split_on c s \<noteq> []"
  by (induction s) (auto split: list.splits)

lemma split_on_snoc_segment:
  assumes "sep \<notin> set tok"
  shows "split_on sep (s @ sep # tok) = split_on sep s @ [tok]"
proof (induction s)
  case Nil
  have "split_on sep tok = [tok]"
    using assms by (induction tok) auto
  then show ?case by simp
next
  case (Cons c s)
  then show ?case
    by (cases "split_on sep s") (auto simp add: split_on_not_Nil)
qed

lemma join_split_on: "join [sep] (split_on sep s) = s"
proof (induction s)
  case Nil
  then show ?case by simp
next
  case (Cons c s)
  obtain a as where sp: "split_on sep s = a # as"
    using split_on_not_Nil [of sep s] by (cases "split_on sep s") auto
  with Cons show ?case
    by (cases as) auto
qed

text \<open>
  What the path gate computes on a path with a leading slash: the segment it drops is the
  empty string before that slash, so the key is all of the path between the leading slash
  and the last one.
\<close>

lemma leading_slash_path:
  assumes "CHR ''/'' \<notin> set tok"
  shows "join ''/'' (tl (butlast (split_on CHR ''/'' (CHR ''/'' # orig @ CHR ''/'' # tok)))) = orig
         \<and> last (split_on CHR ''/'' (CHR ''/'' # orig @ CHR ''/'' # tok)) = tok"
  using assms by (simp add: split_on_snoc_segment join_split_on split_on_not_Nil)

section \<open>The gates\<close>

lemma handler_unauthorized:
  assumes "\<not> truthy (header ev ''x-origin-secret-header'')
           \<or> header ev ''x-origin-secret-header'' \<noteq> SECRET_KEY cfg"
  shows "handler cfg w ev = sendError 403 ''Request unauthorized.'' (LogEvent ev)"
  using assms by (auto simp add: handler_def)

lemma handler_not_get:
  assumes "truthy (header ev ''x-origin-secret-header'')"
    and "header ev ''x-origin-secret-header'' = SECRET_KEY cfg"
    and "request_method ev \<noteq> Str ''GET''"
  shows "handler cfg w ev = sendError 400 ''Only GET method is supported.'' (LogEvent ev)"
  using assms by (auto simp add: handler_def request_method_def split: option.splits)

lemma handler_get:
  assumes "truthy (header ev ''x-origin-secret-header'')"
    and "header ev ''x-origin-secret-header'' = SECRET_KEY cfg"
    and "requestContext ev = Some rc" and "http rc = Some h"
    and "method h = Str ''GET''" and "path h = Str p"
  shows "handler cfg w ev =
           process_image cfg w (join ''/'' (tl (butlast (split_on CHR ''/'' p))))
             (last (split_on CHR ''/'' p))"
  using assms by (simp add: handler_def path_gate_def Let_def)

text \<open>
  Claim C4. A request whose \<^verbatim>\<open>x-origin-secret-header\<close> is absent, or differs from the
  configured secret, is answered with status 403, and the original store is read zero
  times: the invocation only writes to the console.
\<close>

theorem auth_short_circuit:
  assumes "headers ev ''x-origin-secret-header'' = None
           \<or> header ev ''x-origin-secret-header'' \<noteq> SECRET_KEY cfg"
  shows "fst (handler cfg w ev) =
           Returned \<lparr>statusCode = 403, body = Text ''Request unauthorized.'',
                     isBase64Encoded = None, response_headers = None\<rparr>
         \<and> fetch_count (snd (handler cfg w ev)) = 0
         \<and> list_all is_console (snd (handler cfg w ev))"
proof -
  from assms have "\<not> truthy (header ev ''x-origin-secret-header'')
           \<or> header ev ''x-origin-secret-header'' \<noteq> SECRET_KEY cfg"
    by (auto simp add: header_def)
  then have "handler cfg w ev = sendError 403 ''Request unauthorized.'' (LogEvent ev)"
    by (rule handler_unauthorized)
  then show ?thesis
    by (simp add: sendError_def fetch_count_def)
qed

theorem auth_short_circuit_witness:
  "header (test_event [''x-origin-secret-header'' \<mapsto> ''guess''] (Str ''GET'')
             (Str ''/images/rio/1.jpg/format=webp,width=200'')) ''x-origin-secret-header''
     \<noteq> SECRET_KEY test_config
   \<and> status_of (fst (handler test_config test_world
        (test_event [''x-origin-secret-header'' \<mapsto> ''guess''] (Str ''GET'')
           (Str ''/images/rio/1.jpg/format=webp,width=200'')))) = Some 403
   \<and> fetch_count (snd (handler test_config test_world
        (test_event [''x-origin-secret-header'' \<mapsto> ''guess''] (Str ''GET'')
           (Str ''/images/rio/1.jpg/format=webp,width=200'')))) = 0
   \<and> headers (test_event Map.empty (Str ''GET'') (Str ''/images/rio/1.jpg/original''))
        ''x-origin-secret-header'' = None
   \<and> status_of (fst (handler test_config test_world
        (test_event Map.empty (Str ''GET'') (Str ''/images/rio/1.jpg/original'')))) = Some 403"
proof -
  have h1: "header (test_event [''x-origin-secret-header'' \<mapsto> ''guess''] (Str ''GET'')
             (Str ''/images/rio/1.jpg/format=webp,width=200'')) ''x-origin-secret-header''
     \<noteq> SECRET_KEY test_config"
    by (simp add: header_def test_event_def test_config_def)
  have h2: "headers (test_event Map.empty (Str ''GET'') (Str ''/images/rio/1.jpg/original''))
        ''x-origin-secret-header'' = None"
    by (simp add: test_event_def)
  show ?thesis
    using h1 h2
      auth_short_circuit [of "test_event [''x-origin-secret-header'' \<mapsto> ''guess''] (Str ''GET'')
             (Str ''/images/rio/1.jpg/format=webp,width=200'')" test_config test_world]
      auth_short_circuit [of "test_event Map.empty (Str ''GET'') (Str ''/images/rio/1.jpg/original'')"
         test_config test_world]
    by simp
qed

text \<open>
  Claim C10. A request whose \<^verbatim>\<open>x-origin-secret-header\<close> is present but empty is
  answered with status 403 under every configuration, also when the configured secret is
  itself the empty string or unset: the truthiness test rejects the empty string before
  the comparison is looked at.
\<close>

theorem empty_secret_header_rejected:
  assumes "headers ev ''x-origin-secret-header'' = Some []"
  shows "fst (handler cfg w ev) =
           Returned \<lparr>statusCode = 403, body = Text ''Request unauthorized.'',
                     isBase64Encoded = None, response_headers = None\<rparr>"
proof -
  from assms have "\<not> truthy (header ev ''x-origin-secret-header'')"
    by (simp add: header_def)
  then have "handler cfg w ev = sendError 403 ''Request unauthorized.'' (LogEvent ev)"
    by (simp add: handler_unauthorized)
  then show ?thesis
    by (simp add: sendError_def)
qed

theorem empty_secret_header_rejected_witness:
  "headers (test_event [''x-origin-secret-header'' \<mapsto> []] (Str ''GET'')
      (Str ''/images/rio/1.jpg/original'')) ''x-origin-secret-header'' = Some []
   \<and> header (test_event [''x-origin-secret-header'' \<mapsto> []] (Str ''GET'')
      (Str ''/images/rio/1.jpg/original'')) ''x-origin-secret-header''
     = SECRET_KEY (test_config\<lparr>SECRET_KEY := Str []\<rparr>)
   \<and> status_of (fst (handler (test_config\<lparr>SECRET_KEY := Str []\<rparr>) test_world
        (test_event [''x-origin-secret-header'' \<mapsto> []] (Str ''GET'')
           (Str ''/images/rio/1.jpg/original'')))) = Some 403
   \<and> status_of (fst (handler (test_config\<lparr>SECRET_KEY := Undefined\<rparr>) test_world
        (test_event [''x-origin-secret-header'' \<mapsto> []] (Str ''GET'')
           (Str ''/images/rio/1.jpg/original'')))) = Some 403"
proof -
  have h: "headers (test_event [''x-origin-secret-header'' \<mapsto> []] (Str ''GET'')
      (Str ''/images/rio/1.jpg/original'')) ''x-origin-secret-header'' = Some []"
    by (simp add: test_event_def)
  show ?thesis
    using h
      empty_secret_header_rejected [OF h, of "test_config\<lparr>SECRET_KEY := Str []\<rparr>" test_world]
      empty_secret_header_rejected [OF h, of "test_config\<lparr>SECRET_KEY := Undefined\<rparr>" test_world]
    by (simp add: header_def test_config_def)
qed

text \<open>
  Claim C8. An authenticated request whose method is not \<^verbatim>\<open>GET\<close> is answered with
  status 400, and the invocation is the two console lines of \<^verbatim>\<open>sendError\<close> and
  nothing else: no storage call, no transform, and the path is never split (the result
  is the same when the path is \<^verbatim>\<open>undefined\<close>, where the path gate would throw).
\<close>

theorem method_short_circuit:
  assumes "truthy (header ev ''x-origin-secret-header'')"
    and "header ev ''x-origin-secret-header'' = SECRET_KEY cfg"
    and "request_method ev \<noteq> Str ''GET''"
  shows "handler cfg w ev =
           (Returned \<lparr>statusCode = 400, body = Text ''Only GET method is supported.'',
                      isBase64Encoded = None, response_headers = None\<rparr>,
            [ConsoleLog [LogString ''APPLICATION ERROR'',
                         LogString ''Only GET method is supported.''],
             ConsoleLog [LogEvent ev]])"
  using handler_not_get [OF assms] by (simp add: sendError_def)

theorem method_short_circuit_witness:
  "truthy (header (test_event [''x-origin-secret-header'' \<mapsto> ''s3cr3t''] (Str ''POST'') Undefined)
      ''x-origin-secret-header'')
   \<and> header (test_event [''x-origin-secret-header'' \<mapsto> ''s3cr3t''] (Str ''POST'') Undefined)
      ''x-origin-secret-header'' = SECRET_KEY test_config
   \<and> request_method (test_event [''x-origin-secret-header'' \<mapsto> ''s3cr3t''] (Str ''POST'') Undefined)
      = Str ''POST''
   \<and> status_of (fst (handler test_config test_world
        (test_event [''x-origin-secret-header'' \<mapsto> ''s3cr3t''] (Str ''POST'') Undefined)))
      = Some 400
   \<and> length (snd (handler test_config test_world
        (test_event [''x-origin-secret-header'' \<mapsto> ''s3cr3t''] (Str ''POST'') Undefined))) = 2
   \<and> handler test_config test_world
        (test_event [''x-origin-secret-header'' \<mapsto> ''s3cr3t''] (Str ''GET'') Undefined)
      = (Threw (JsError ''TypeError''), [])"
proof -
  have h1: "truthy (header (test_event [''x-origin-secret-header'' \<mapsto> ''s3cr3t''] (Str ''POST'') Undefined)
      ''x-origin-secret-header'')"
    by (simp add: header_def test_event_def)
  have h2: "header (test_event [''x-origin-secret-header'' \<mapsto> ''s3cr3t''] (Str ''POST'') Undefined)
      ''x-origin-secret-header'' = SECRET_KEY test_config"
    by (simp add: header_def test_event_def test_config_def)
  have h3: "request_method (test_event [''x-origin-secret-header'' \<mapsto> ''s3cr3t''] (Str ''POST'') Undefined)
      = Str ''POST''"
    by (simp add: request_method_def test_event_def)
  have h4: "handler test_config test_world
        (test_event [''x-origin-secret-header'' \<mapsto> ''s3cr3t''] (Str ''GET'') Undefined)
      = (Threw (JsError ''TypeError''), [])"
    by (simp add: handler_def header_def test_event_def test_config_def path_gate_def)
  show ?thesis
    using h1 h2 h3 h4
      method_short_circuit [of "test_event [''x-origin-secret-header'' \<mapsto> ''s3cr3t''] (Str ''POST'') Undefined"
        test_config test_world]
    by simp
qed

section \<open>After the gates\<close>

lemma process_image_fetches:
  "filter is_fetch (snd (process_image cfg w k tok)) =
     [CallGetObject \<lparr>Bucket = S3_ORIGINAL_IMAGE_BUCKET cfg, Key = k\<rparr>]"
  by (simp add: process_image_def upload_and_respond_def respond_def sendError_def Let_def
      split: sum.splits option.splits prod.splits)

lemma process_image_put:
  assumes "CallPutObject params \<in> set (snd (process_image cfg w k tok))"
  shows "put_Key params = k @ ''/'' @ tok
         \<and> (status_of (fst (process_image cfg w k tok)) = Some 200
              \<longrightarrow> content_type_of (fst (process_image cfg w k tok))
                    = Some (put_ContentType params))"
  using assms
  by (auto simp add: process_image_def upload_and_respond_def respond_def sendError_def Let_def
      split: sum.splits option.splits prod.splits if_splits)

lemma process_image_transformed:
  assumes "s3_getObject w \<lparr>Bucket = S3_ORIGINAL_IMAGE_BUCKET cfg, Key = k\<rparr> = Inr img"
    and "sharp_constructor w (Body img) = None"
    and "transform_calls (ContentType img) (parse_operations tok) = (calls, ct)"
    and "sharp_toBuffer w (Body img) calls = Inr out"
  shows "process_image cfg w k tok =
           (fst (upload_and_respond cfg w k tok out ct),
            [CallGetObject \<lparr>Bucket = S3_ORIGINAL_IMAGE_BUCKET cfg, Key = k\<rparr>,
             CallSharp (Body img), CallToBuffer calls]
            @ snd (upload_and_respond cfg w k tok out ct))"
  using assms by (simp add: process_image_def Let_def split: prod.splits)

lemma process_image_rejected:
  assumes "s3_getObject w \<lparr>Bucket = S3_ORIGINAL_IMAGE_BUCKET cfg, Key = k\<rparr> = Inr img"
    and "sharp_constructor w (Body img) = None"
    and "transform_calls (ContentType img) (parse_operations tok) = (calls, ct)"
    and "sharp_toBuffer w (Body img) calls = Inl e"
  shows "process_image cfg w k tok =
           (fst (sendError 500 ''error transforming image'' (LogError e)),
            [CallGetObject \<lparr>Bucket = S3_ORIGINAL_IMAGE_BUCKET cfg, Key = k\<rparr>,
             CallSharp (Body img), CallToBuffer calls]
            @ snd (sendError 500 ''error transforming image'' (LogError e)))"
  using assms by (simp add: process_image_def Let_def split: prod.splits)

lemma upload_fails:
  assumes "truthy (S3_TRANSFORMED_IMAGE_BUCKET cfg)"
    and "s3_putObject w
           \<lparr>put_Body = out, put_Bucket = S3_TRANSFORMED_IMAGE_BUCKET cfg,
            put_Key = k @ ''/'' @ tok, put_ContentType = ct,
            put_Metadata = [(''cache-control'', TRANSFORMED_IMAGE_CACHE_TTL cfg)]\<rparr> = Some err"
  shows "upload_and_respond cfg w k tok out ct =
           (Returned \<lparr>statusCode = 500,
                      body = Text ''Could not upload transformed image to S3.'',
                      isBase64Encoded = None, response_headers = None\<rparr>,
            [CallPutObject
               \<lparr>put_Body = out, put_Bucket = S3_TRANSFORMED_IMAGE_BUCKET cfg,
                put_Key = k @ ''/'' @ tok, put_ContentType = ct,
                put_Metadata = [(''cache-control'', TRANSFORMED_IMAGE_CACHE_TTL cfg)]\<rparr>,
             ConsoleLog [LogString ''APPLICATION ERROR'',
                         LogString ''Could not upload transformed image to S3.''],
             ConsoleLog [LogError err]])"
  using assms by (simp add: upload_and_respond_def sendError_def Let_def)

text \<open>A request of the test double that passes both gates, and the definitions a run unfolds.\<close>

lemma test_event_ok:
  "truthy (header (test_event ok_headers m p) ''x-origin-secret-header'')"
  "header (test_event ok_headers m p) ''x-origin-secret-header'' = SECRET_KEY test_config"
  "requestContext (test_event ok_headers m p) = Some \<lparr>http = Some \<lparr>method = m, path = p\<rparr>\<rparr>"
  by (simp_all add: header_def test_event_def test_config_def ok_headers_def)

lemmas run_defs =
  handler_def test_config_def test_event_def header_def path_gate_def
  process_image_def test_world_def test_world_put_fails_def parse_operations_def
  assign_operation_def transform_calls_def get_op_def resizingOptions_def format_switch_def
  test_sharp_def upload_and_respond_def sendError_def respond_def ok_headers_def
  parseInt_string_def is_js_whitespace_def digits_value_def radix_digit_def digit_value_def
  round_to_double_def

text \<open>
  Claim C7, as stated, fails. On the path \<^verbatim>\<open>/images/rio/1.jpg/original\<close>, which has
  the spec's shape with routing prefix \<^verbatim>\<open>images\<close> and original path
  \<^verbatim>\<open>rio/1.jpg\<close>, the handler reads the key \<^verbatim>\<open>images/rio/1.jpg\<close>: the routing
  prefix is still in it.
\<close>

theorem routing_prefix_kept_in_key:
  "spec_routing_prefix ''/images/rio/1.jpg/original'' = ''images''
   \<and> spec_original_path ''/images/rio/1.jpg/original'' = ''rio/1.jpg''
   \<and> filter is_fetch (snd (handler test_config test_world
        (test_event ok_headers (Str ''GET'') (Str ''/images/rio/1.jpg/original''))))
     = [CallGetObject \<lparr>Bucket = Str ''originals'', Key = ''images/rio/1.jpg''\<rparr>]"
  by (simp add: spec_routing_prefix_def spec_original_path_def run_defs)

text \<open>
  Claim C7, amended. For an authenticated \<^verbatim>\<open>GET\<close> request with path \<open>p\<close>, the handler
  splits \<open>p\<close> on \<^verbatim>\<open>/\<close>, takes the last segment as the operations token, drops the
  first segment and joins the segments in between with \<^verbatim>\<open>/\<close>: that string is
  the key of the one read of the original store. When \<open>p\<close> starts with \<^verbatim>\<open>/\<close>, the
  dropped segment is the empty string before that slash, not a routing prefix: the key
  is all of \<open>p\<close> between its leading slash and its last one.
\<close>

theorem path_gate_fetch_key:
  assumes "truthy (header ev ''x-origin-secret-header'')"
    and "header ev ''x-origin-secret-header'' = SECRET_KEY cfg"
    and "requestContext ev = Some rc" and "http rc = Some h"
    and "method h = Str ''GET''" and "path h = Str p"
  shows "handler cfg w ev =
           process_image cfg w (join ''/'' (tl (butlast (split_on CHR ''/'' p))))
             (last (split_on CHR ''/'' p))
         \<and> filter is_fetch (snd (handler cfg w ev)) =
             [CallGetObject \<lparr>Bucket = S3_ORIGINAL_IMAGE_BUCKET cfg,
                             Key = join ''/'' (tl (butlast (split_on CHR ''/'' p)))\<rparr>]
         \<and> (p = CHR ''/'' # orig @ CHR ''/'' # tok \<and> CHR ''/'' \<notin> set tok
              \<longrightarrow> handler cfg w ev = process_image cfg w orig tok
                  \<and> filter is_fetch (snd (handler cfg w ev)) =
                      [CallGetObject \<lparr>Bucket = S3_ORIGINAL_IMAGE_BUCKET cfg, Key = orig\<rparr>])"
proof -
  have a: "handler cfg w ev =
           process_image cfg w (join ''/'' (tl (butlast (split_on CHR ''/'' p))))
             (last (split_on CHR ''/'' p))"
    using assms by (rule handler_get)
  then have b: "filter is_fetch (snd (handler cfg w ev)) =
             [CallGetObject \<lparr>Bucket = S3_ORIGINAL_IMAGE_BUCKET cfg,
                             Key = join ''/'' (tl (butlast (split_on CHR ''/'' p)))\<rparr>]"
    by (simp add: process_image_fetches)
  have c: "handler cfg w ev = process_image cfg w orig tok
           \<and> filter is_fetch (snd (handler cfg w ev)) =
                [CallGetObject \<lparr>Bucket = S3_ORIGINAL_IMAGE_BUCKET cfg, Key = orig\<rparr>]"
    if "p = CHR ''/'' # orig @ CHR ''/'' # tok" and "CHR ''/'' \<notin> set tok"
    using a b leading_slash_path [OF that(2), of orig] that(1) by simp
  from a b c show ?thesis by blast
qed

theorem path_gate_fetch_key_witness:
  "filter is_fetch (snd (handler test_config test_world
      (test_event ok_headers (Str ''GET'') (Str ''/images/rio/1.jpg/format=webp,width=200''))))
   = [CallGetObject \<lparr>Bucket = Str ''originals'', Key = ''images/rio/1.jpg''\<rparr>]
   \<and> handler test_config test_world
      (test_event ok_headers (Str ''GET'') (Str ''/images/rio/1.jpg/format=webp,width=200''))
   = process_image test_config test_world ''images/rio/1.jpg'' ''format=webp,width=200''"
proof -
  let ?p = "''/images/rio/1.jpg/format=webp,width=200''"
  let ?h = "\<lparr>method = Str ''GET'', path = Str ?p\<rparr>"
  let ?rc = "\<lparr>http = Some ?h\<rparr>"
  let ?ev = "test_event ok_headers (Str ''GET'') (Str ?p)"
  have e1: "truthy (header ?ev ''x-origin-secret-header'')"
    and e2: "header ?ev ''x-origin-secret-header'' = SECRET_KEY test_config"
    and e3: "requestContext ?ev = Some ?rc"
    by (rule test_event_ok)+
  have e4: "http ?rc = Some ?h" and e5: "method ?h = Str ''GET''" and e6: "path ?h = Str ?p"
    by simp_all
  have p: "?p = CHR ''/'' # ''images/rio/1.jpg'' @ CHR ''/'' # ''format=webp,width=200''"
    by simp
  have n: "CHR ''/'' \<notin> set ''format=webp,width=200''"
    by simp
  have b: "S3_ORIGINAL_IMAGE_BUCKET test_config = Str ''originals''"
    by (simp add: test_config_def)
  note t = path_gate_fetch_key [OF e1 e2 e3 e4 e5 e6,
      of test_world "''images/rio/1.jpg''" "''format=webp,width=200''",
      THEN conjunct2, THEN conjunct2, THEN mp, OF conjI [OF p n]]
  from t [THEN conjunct2] b t [THEN conjunct1] show ?thesis
    by (simp only: simp_thms)
qed

text \<open>
  Claim C9. Every write to the transformed store that an invocation makes has the key
  \<^verbatim>\<open>originalImagePath + '/' + operationsPrefix\<close>, and when the invocation answers
  200, the \<^verbatim>\<open>Content-Type\<close> of the response is the content type of the stored object.
\<close>

theorem stored_key_and_content_type:
  assumes "CallPutObject params \<in> set (snd (handler cfg w ev))"
    and "request_path ev = Str p"
  shows "put_Key params =
           join ''/'' (tl (butlast (split_on CHR ''/'' p))) @ ''/'' @ last (split_on CHR ''/'' p)
         \<and> (status_of (fst (handler cfg w ev)) = Some 200
              \<longrightarrow> content_type_of (fst (handler cfg w ev)) = Some (put_ContentType params))"
proof -
  have "handler cfg w ev =
          process_image cfg w (join ''/'' (tl (butlast (split_on CHR ''/'' p))))
            (last (split_on CHR ''/'' p))"
    using assms
    by (auto simp add: handler_def path_gate_def request_path_def sendError_def Let_def
        split: option.splits if_splits)
  with assms(1) show ?thesis
    using process_image_put [of params cfg w] by simp
qed

lemma run_png:
  "handler test_config test_world
      (test_event ok_headers (Str ''GET'') (Str ''/images/rio/1.jpg/format=png'')) =
    (Returned \<lparr>statusCode = 200,
        body = Base64 [255, 216, 255, 1, 2, 0, 0, 3, 112, 110, 103, 0],
        isBase64Encoded = Some True,
        response_headers = Some [(''Content-Type'', Str ''image/png''),
                                 (''Cache-Control'', Str ''max-age=31622400'')]\<rparr>,
     [CallGetObject \<lparr>Bucket = Str ''originals'', Key = ''images/rio/1.jpg''\<rparr>,
      CallSharp [255, 216, 255],
      CallToBuffer [Rotate, Resize \<lparr>width = None, height = None\<rparr>, ToFormat ''png'' None],
      CallPutObject
        \<lparr>put_Body = [255, 216, 255, 1, 2, 0, 0, 3, 112, 110, 103, 0],
         put_Bucket = Str ''transformed'',
         put_Key = ''images/rio/1.jpg/format=png'',
         put_ContentType = Str ''image/png'',
         put_Metadata = [(''cache-control'', Str ''max-age=31622400'')]\<rparr>])"
  by (simp add: run_defs)

theorem stored_key_and_content_type_witness:
  "CallPutObject
     \<lparr>put_Body = [255, 216, 255, 1, 2, 0, 0, 3, 112, 110, 103, 0],
      put_Bucket = Str ''transformed'',
      put_Key = ''images/rio/1.jpg/format=png'',
      put_ContentType = Str ''image/png'',
      put_Metadata = [(''cache-control'', Str ''max-age=31622400'')]\<rparr>
     \<in> set (snd (handler test_config test_world
            (test_event ok_headers (Str ''GET'') (Str ''/images/rio/1.jpg/format=png''))))
   \<and> status_of (fst (handler test_config test_world
            (test_event ok_headers (Str ''GET'') (Str ''/images/rio/1.jpg/format=png''))))
       = Some 200
   \<and> content_type_of (fst (handler test_config test_world
            (test_event ok_headers (Str ''GET'') (Str ''/images/rio/1.jpg/format=png''))))
       = Some (Str ''image/png'')"
proof -
  have p: "request_path (test_event ok_headers (Str ''GET'') (Str ''/images/rio/1.jpg/format=png''))
             = Str ''/images/rio/1.jpg/format=png''"
    by (simp add: request_path_def test_event_def)
  have m: "CallPutObject
     \<lparr>put_Body = [255, 216, 255, 1, 2, 0, 0, 3, 112, 110, 103, 0],
      put_Bucket = Str ''transformed'',
      put_Key = ''images/rio/1.jpg/format=png'',
      put_ContentType = Str ''image/png'',
      put_Metadata = [(''cache-control'', Str ''max-age=31622400'')]\<rparr>
     \<in> set (snd (handler test_config test_world
            (test_event ok_headers (Str ''GET'') (Str ''/images/rio/1.jpg/format=png''))))"
    by (simp add: run_png)
  have st: "status_of (fst (handler test_config test_world
            (test_event ok_headers (Str ''GET'') (Str ''/images/rio/1.jpg/format=png'')))) = Some 200"
    by (simp add: run_png)
  from stored_key_and_content_type [OF m p] st m show ?thesis
    by simp
qed

text \<open>
  Claim C1, as stated, fails: with the same request, configuration, original image and
  engine, the answer is 200 when the write succeeds and 500 when it fails.
\<close>

theorem write_failure_fails_request:
  "fst (handler test_config test_world
          (test_event ok_headers (Str ''GET'') (Str ''/images/rio/1.jpg/format=png'')))
     = Returned \<lparr>statusCode = 200,
        body = Base64 [255, 216, 255, 1, 2, 0, 0, 3, 112, 110, 103, 0],
        isBase64Encoded = Some True,
        response_headers = Some [(''Content-Type'', Str ''image/png''),
                                 (''Cache-Control'', Str ''max-age=31622400'')]\<rparr>
   \<and> fst (handler test_config test_world_put_fails
          (test_event ok_headers (Str ''GET'') (Str ''/images/rio/1.jpg/format=png'')))
     = Returned \<lparr>statusCode = 500,
        body = Text ''Could not upload transformed image to S3.'',
        isBase64Encoded = None, response_headers = None\<rparr>"
  by (simp add: run_defs)

text \<open>
  Claim C1, amended. When the transform succeeds and a transformed store is configured, a
  failure of the write makes the handler answer 500 with the fixed message
  \<^verbatim>\<open>Could not upload transformed image to S3.\<close>; the write error is not part of the
  response, it is the last console line of the invocation.
\<close>

theorem write_failure_status_500:
  assumes "truthy (header ev ''x-origin-secret-header'')"
    and "header ev ''x-origin-secret-header'' = SECRET_KEY cfg"
    and "requestContext ev = Some rc" and "http rc = Some h"
    and "method h = Str ''GET''" and "path h = Str p"
    and "s3_getObject w \<lparr>Bucket = S3_ORIGINAL_IMAGE_BUCKET cfg,
                          Key = join ''/'' (tl (butlast (split_on CHR ''/'' p)))\<rparr> = Inr img"
    and "sharp_constructor w (Body img) = None"
    and "transform_calls (ContentType img) (parse_operations (last (split_on CHR ''/'' p)))
           = (calls, ct)"
    and "sharp_toBuffer w (Body img) calls = Inr out"
    and "truthy (S3_TRANSFORMED_IMAGE_BUCKET cfg)"
    and "s3_putObject w
           \<lparr>put_Body = out, put_Bucket = S3_TRANSFORMED_IMAGE_BUCKET cfg,
            put_Key = join ''/'' (tl (butlast (split_on CHR ''/'' p))) @ ''/''
                        @ last (split_on CHR ''/'' p),
            put_ContentType = ct,
            put_Metadata = [(''cache-control'', TRANSFORMED_IMAGE_CACHE_TTL cfg)]\<rparr> = Some err"
  shows "fst (handler cfg w ev) =
           Returned \<lparr>statusCode = 500,
                     body = Text ''Could not upload transformed image to S3.'',
                     isBase64Encoded = None, response_headers = None\<rparr>
         \<and> last (snd (handler cfg w ev)) = ConsoleLog [LogError err]"
proof -
  have "handler cfg w ev =
          process_image cfg w (join ''/'' (tl (butlast (split_on CHR ''/'' p))))
            (last (split_on CHR ''/'' p))"
    using assms(1-6) by (rule handler_get)
  also note process_image_transformed [OF assms(7-10)]
  finally show ?thesis
    by (simp add: upload_fails [OF assms(11,12)])
qed

theorem write_failure_status_500_witness:
  "s3_putObject test_world_put_fails
      \<lparr>put_Body = [255, 216, 255, 1, 2, 0, 0, 3, 112, 110, 103, 0],
       put_Bucket = S3_TRANSFORMED_IMAGE_BUCKET test_config,
       put_Key = ''images/rio/1.jpg/format=png'',
       put_ContentType = Str ''image/png'',
       put_Metadata = [(''cache-control'', TRANSFORMED_IMAGE_CACHE_TTL test_config)]\<rparr>
     = Some (JsError ''AccessDenied'')
   \<and> status_of (fst (handler test_config test_world_put_fails
          (test_event ok_headers (Str ''GET'') (Str ''/images/rio/1.jpg/format=png'')))) = Some 500
   \<and> last (snd (handler test_config test_world_put_fails
          (test_event ok_headers (Str ''GET'') (Str ''/images/rio/1.jpg/format=png''))))
       = ConsoleLog [LogError (JsError ''AccessDenied'')]"
proof -
  have s: "split_on CHR ''/'' ''/images/rio/1.jpg/format=png''
             = [[], ''images'', ''rio'', ''1.jpg'', ''format=png'']"
    by simp
  have g: "s3_getObject test_world_put_fails
             \<lparr>Bucket = S3_ORIGINAL_IMAGE_BUCKET test_config,
              Key = join ''/'' (tl (butlast (split_on CHR ''/'' ''/images/rio/1.jpg/format=png'')))\<rparr>
           = Inr \<lparr>Body = [255, 216, 255], ContentType = Str ''image/jpeg''\<rparr>"
    by (simp add: s test_world_put_fails_def test_world_def)
  have c: "sharp_constructor test_world_put_fails
             (Body \<lparr>Body = [255, 216, 255], ContentType = Str ''image/jpeg''\<rparr>) = None"
    by (simp add: test_world_put_fails_def test_world_def)
  have t: "transform_calls (ContentType \<lparr>Body = [255, 216, 255], ContentType = Str ''image/jpeg''\<rparr>)
             (parse_operations (last (split_on CHR ''/'' ''/images/rio/1.jpg/format=png'')))
           = ([Rotate, Resize \<lparr>width = None, height = None\<rparr>, ToFormat ''png'' None],
              Str ''image/png'')"
    by (simp add: s run_defs)
  have b: "sharp_toBuffer test_world_put_fails
             (Body \<lparr>Body = [255, 216, 255], ContentType = Str ''image/jpeg''\<rparr>)
             [Rotate, Resize \<lparr>width = None, height = None\<rparr>, ToFormat ''png'' None]
           = Inr [255, 216, 255, 1, 2, 0, 0, 3, 112, 110, 103, 0]"
    by (simp add: run_defs)
  have u: "truthy (S3_TRANSFORMED_IMAGE_BUCKET test_config)"
    by (simp add: test_config_def)
  have f: "s3_putObject test_world_put_fails
      \<lparr>put_Body = [255, 216, 255, 1, 2, 0, 0, 3, 112, 110, 103, 0],
       put_Bucket = S3_TRANSFORMED_IMAGE_BUCKET test_config,
       put_Key = join ''/'' (tl (butlast (split_on CHR ''/'' ''/images/rio/1.jpg/format=png'')))
                   @ ''/'' @ last (split_on CHR ''/'' ''/images/rio/1.jpg/format=png''),
       put_ContentType = Str ''image/png'',
       put_Metadata = [(''cache-control'', TRANSFORMED_IMAGE_CACHE_TTL test_config)]\<rparr>
     = Some (JsError ''AccessDenied'')"
    by (simp add: test_world_put_fails_def)
  from write_failure_status_500 [OF test_event_ok _ _ _ g c t b u f,
      where h = "\<lparr>method = Str ''GET'', path = Str ''/images/rio/1.jpg/format=png''\<rparr>"]
  show ?thesis
    by (simp add: s test_world_put_fails_def)
qed

section \<open>The operations object\<close>

lemma assign_operation_segment_kv:
  "assign_operation operation m =
     (if fst (segment_kv operation) = ''__proto__'' then m
      else m(fst (segment_kv operation) \<mapsto> snd (segment_kv operation)))"
  using split_on_not_Nil [of "CHR ''=''" operation]
  by (simp add: assign_operation_def segment_kv_def Let_def split: list.splits)

lemma fold_assign_operation:
  assumes "k \<noteq> ''__proto__''"
  shows "get_op (fold assign_operation segs m) k =
           (case filter (\<lambda>kv. fst kv = k) (map segment_kv segs) of
              [] \<Rightarrow> get_op m k
            | x # xs \<Rightarrow> snd (last (x # xs)))"
  using assms
proof (induction segs arbitrary: m)
  case Nil
  then show ?case by simp
next
  case (Cons seg segs)
  show ?case
  proof (cases "fst (segment_kv seg) = k")
    case True
    with Cons.prems have "get_op (assign_operation seg m) k = snd (segment_kv seg)"
      by (simp add: assign_operation_segment_kv get_op_def)
    with True Cons.IH [OF Cons.prems, of "assign_operation seg m"] show ?thesis
      by (simp split: list.splits)
  next
    case False
    then have "get_op (assign_operation seg m) k = get_op m k"
      by (simp add: assign_operation_segment_kv get_op_def)
    with False Cons.IH [OF Cons.prems, of "assign_operation seg m"] show ?thesis
      by (simp split: list.splits)
  qed
qed

lemma parse_operations_last_value:
  assumes "k \<noteq> ''__proto__''"
  shows "get_op (parse_operations tok) k = last_value k (token_pairs tok)"
  using fold_assign_operation [OF assms, of "split_on CHR '','' tok" Map.empty]
  by (simp add: parse_operations_def last_value_def token_pairs_def get_op_def split: list.splits)

lemma transform_calls_cong:
  assumes "get_op ops1 ''width'' = get_op ops2 ''width''"
    and "get_op ops1 ''height'' = get_op ops2 ''height''"
    and "get_op ops1 ''format'' = get_op ops2 ''format''"
    and "get_op ops1 ''quality'' = get_op ops2 ''quality''"
  shows "transform_calls ct ops1 = transform_calls ct ops2"
  unfolding transform_calls_def resizingOptions_def assms by (rule refl)

lemma parse_original: "parse_operations ''original'' = [''original'' \<mapsto> Undefined]"
  by (simp add: parse_operations_def assign_operation_def)

text \<open>
  Claim C6. The operations object holds, for every key, the value of the last segment of
  the token with that key, where the segments are the pieces of the token between commas
  and a segment's key and value are its first two pieces between \<^verbatim>\<open>=\<close> signs (the
  key \<^verbatim>\<open>__proto__\<close> apart, which a plain object does not store). Only
  \<^verbatim>\<open>width\<close>, \<^verbatim>\<open>height\<close>, \<^verbatim>\<open>format\<close> and \<^verbatim>\<open>quality\<close> are ever read, so any
  other key changes nothing and raises nothing. The token \<^verbatim>\<open>original\<close> sets none of
  the four: no dimension is passed to \<^verbatim>\<open>resize\<close> and \<^verbatim>\<open>toFormat\<close> is not called.
\<close>

theorem operations_parser:
  "(k \<noteq> ''__proto__'' \<longrightarrow>
      get_op (parse_operations tok) k = last_value k (token_pairs tok))
   \<and> (get_op ops1 ''width'' = get_op ops2 ''width''
        \<and> get_op ops1 ''height'' = get_op ops2 ''height''
        \<and> get_op ops1 ''format'' = get_op ops2 ''format''
        \<and> get_op ops1 ''quality'' = get_op ops2 ''quality''
      \<longrightarrow> transform_calls ct ops1 = transform_calls ct ops2)
   \<and> get_op (parse_operations ''original'') ''width'' = Undefined
   \<and> get_op (parse_operations ''original'') ''height'' = Undefined
   \<and> get_op (parse_operations ''original'') ''format'' = Undefined
   \<and> get_op (parse_operations ''original'') ''quality'' = Undefined
   \<and> transform_calls ct (parse_operations ''original'')
       = ([Rotate, Resize \<lparr>width = None, height = None\<rparr>], ct)"
proof -
  have a: "k \<noteq> ''__proto__'' \<longrightarrow>
      get_op (parse_operations tok) k = last_value k (token_pairs tok)"
    by (simp add: parse_operations_last_value)
  have b: "get_op ops1 ''width'' = get_op ops2 ''width''
        \<and> get_op ops1 ''height'' = get_op ops2 ''height''
        \<and> get_op ops1 ''format'' = get_op ops2 ''format''
        \<and> get_op ops1 ''quality'' = get_op ops2 ''quality''
      \<longrightarrow> transform_calls ct ops1 = transform_calls ct ops2"
    using transform_calls_cong [of ops1 ops2 ct] by blast
  have c: "get_op (parse_operations ''original'') ''width'' = Undefined"
    "get_op (parse_operations ''original'') ''height'' = Undefined"
    "get_op (parse_operations ''original'') ''format'' = Undefined"
    "get_op (parse_operations ''original'') ''quality'' = Undefined"
    by (simp_all add: parse_original get_op_def)
  have d: "transform_calls ct (parse_operations ''original'')
       = ([Rotate, Resize \<lparr>width = None, height = None\<rparr>], ct)"
    by (simp add: transform_calls_def resizingOptions_def c)
  from a b c d show ?thesis by blast
qed

theorem operations_parser_witness:
  "token_pairs ''width=100,foo=bar,width=200,height''
     = [(''width'', Str ''100''), (''foo'', Str ''bar''), (''width'', Str ''200''),
        (''height'', Undefined)]
   \<and> get_op (parse_operations ''width=100,foo=bar,width=200,height'') ''width'' = Str ''200''
   \<and> transform_calls (Str ''image/png'') (parse_operations ''width=100,foo=bar'')
       = transform_calls (Str ''image/png'') (parse_operations ''width=100'')
   \<and> transform_calls (Str ''image/png'') (parse_operations ''original'')
       = ([Rotate, Resize \<lparr>width = None, height = None\<rparr>], Str ''image/png'')"
proof -
  have p: "token_pairs ''width=100,foo=bar,width=200,height''
     = [(''width'', Str ''100''), (''foo'', Str ''bar''), (''width'', Str ''200''),
        (''height'', Undefined)]"
    by (simp add: token_pairs_def segment_kv_def)
  have n: "''width'' \<noteq> ''__proto__''"
    by simp
  have q: "get_op (parse_operations ''width=100,foo=bar'') ''width''
             = get_op (parse_operations ''width=100'') ''width''
      \<and> get_op (parse_operations ''width=100,foo=bar'') ''height''
             = get_op (parse_operations ''width=100'') ''height''
      \<and> get_op (parse_operations ''width=100,foo=bar'') ''format''
             = get_op (parse_operations ''width=100'') ''format''
      \<and> get_op (parse_operations ''width=100,foo=bar'') ''quality''
             = get_op (parse_operations ''width=100'') ''quality''"
    by (simp add: parse_operations_def assign_operation_def get_op_def)
  from operations_parser [of "''width''" "''width=100,foo=bar,width=200,height''"
      "parse_operations ''width=100,foo=bar''" "parse_operations ''width=100''" "Str ''image/png''"]
    n q p
  show ?thesis
    by (simp add: last_value_def)
qed

section \<open>Quality and format\<close>

text \<open>
  Claim C5. When the format is \<^verbatim>\<open>png\<close>, \<^verbatim>\<open>gif\<close> or \<^verbatim>\<open>svg\<close>, the calls made
  on the engine, and so the bytes it returns, are the same whatever \<^verbatim>\<open>quality\<close> is
  (absent, \<^verbatim>\<open>50\<close>, anything): \<^verbatim>\<open>toFormat\<close> gets no quality. A quality reaches
  \<^verbatim>\<open>toFormat\<close> only for a format the switch marks lossy.
\<close>

theorem quality_ignored_for_lossless:
  assumes "get_op ops ''format'' = Str f"
    and "f = ''png'' \<or> f = ''gif'' \<or> f = ''svg''"
  shows "sharp_toBuffer w input (fst (transform_calls ct (ops(''quality'' := q))))
           = sharp_toBuffer w input (fst (transform_calls ct ops))
         \<and> transform_calls ct (ops(''quality'' := q))
           = ([Rotate, Resize (resizingOptions ops), ToFormat f None],
              Str (fst (format_switch f)))
         \<and> (ToFormat g (Some n) \<in> set (fst (transform_calls ct' ops'))
              \<longrightarrow> snd (format_switch g))"
proof -
  have r: "resizingOptions (ops(''quality'' := q)) = resizingOptions ops"
    by (simp add: resizingOptions_def get_op_def)
  have fq: "get_op (ops(''quality'' := q)) ''format'' = Str f"
    using assms(1) by (simp add: get_op_def)
  obtain c where l: "format_switch f = (c, False)" and ne: "f \<noteq> []"
    using assms(2) by (auto simp add: format_switch_def)
  have a: "transform_calls ct (ops(''quality'' := q))
           = ([Rotate, Resize (resizingOptions ops), ToFormat f None],
              Str (fst (format_switch f)))"
    using fq l ne by (simp add: transform_calls_def r)
  have b: "transform_calls ct ops
           = ([Rotate, Resize (resizingOptions ops), ToFormat f None],
              Str (fst (format_switch f)))"
    using assms(1) l ne by (simp add: transform_calls_def)
  have c: "ToFormat g (Some n) \<in> set (fst (transform_calls ct' ops'))
              \<longrightarrow> snd (format_switch g)"
    by (auto simp add: transform_calls_def Let_def split: js_val.splits if_splits prod.splits)
  from a b c show ?thesis by simp
qed

theorem quality_ignored_for_lossless_witness:
  "sharp_toBuffer test_world [255, 216, 255]
      (fst (transform_calls (Str ''image/jpeg'') (parse_operations ''format=png,quality=50'')))
   = sharp_toBuffer test_world [255, 216, 255]
      (fst (transform_calls (Str ''image/jpeg'') (parse_operations ''format=png'')))
   \<and> sharp_toBuffer test_world [255, 216, 255]
      (fst (transform_calls (Str ''image/jpeg'') (parse_operations ''format=png'')))
     = Inr [255, 216, 255, 1, 2, 0, 0, 3, 112, 110, 103, 0]
   \<and> sharp_toBuffer test_world [255, 216, 255]
      (fst (transform_calls (Str ''image/jpeg'') (parse_operations ''format=webp,quality=50'')))
     = Inr [255, 216, 255, 1, 2, 0, 0, 3, 119, 101, 98, 112, 50]
   \<and> sharp_toBuffer test_world [255, 216, 255]
      (fst (transform_calls (Str ''image/jpeg'') (parse_operations ''format=webp'')))
     = Inr [255, 216, 255, 1, 2, 0, 0, 3, 119, 101, 98, 112, 0]"
proof -
  have f: "get_op (parse_operations ''format=png'') ''format'' = Str ''png''"
    by (simp add: parse_operations_def assign_operation_def get_op_def)
  have u: "parse_operations ''format=png,quality=50''
             = (parse_operations ''format=png'')(''quality'' := Some (Str ''50''))"
    by (simp add: parse_operations_def assign_operation_def)
  have e: "sharp_toBuffer test_world [255, 216, 255]
      (fst (transform_calls (Str ''image/jpeg'') (parse_operations ''format=png'')))
     = Inr [255, 216, 255, 1, 2, 0, 0, 3, 112, 110, 103, 0]"
    "sharp_toBuffer test_world [255, 216, 255]
      (fst (transform_calls (Str ''image/jpeg'') (parse_operations ''format=webp,quality=50'')))
     = Inr [255, 216, 255, 1, 2, 0, 0, 3, 119, 101, 98, 112, 50]"
    "sharp_toBuffer test_world [255, 216, 255]
      (fst (transform_calls (Str ''image/jpeg'') (parse_operations ''format=webp'')))
     = Inr [255, 216, 255, 1, 2, 0, 0, 3, 119, 101, 98, 112, 0]"
    by (simp_all add: run_defs)
  from quality_ignored_for_lossless [OF f, of test_world "[255, 216, 255]" "Str ''image/jpeg''"
      "Some (Str ''50'')"] u e
  show ?thesis
    by (simp add: run_defs)
qed

section \<open>Values of the wrong type\<close>

lemma upload_and_respond_not_transform_error:
  "fst (upload_and_respond cfg w k tok out ct) \<noteq>
     Returned \<lparr>statusCode = 500, body = Text ''error transforming image'',
               isBase64Encoded = None, response_headers = None\<rparr>"
  by (simp add: upload_and_respond_def respond_def sendError_def Let_def split: option.splits)

lemma falsy_operation_dropped:
  assumes "\<not> truthy (get_op ops k)"
  shows "transform_calls ct (ops(k := None)) = transform_calls ct ops"
proof -
  have g: "get_op (ops(k := None)) k' = (if k' = k then Undefined else get_op ops k')" for k'
    by (simp add: get_op_def)
  have t: "truthy (get_op (ops(k := None)) k') = truthy (get_op ops k')" for k'
    using assms by (simp add: g)
  have r: "resizingOptions (ops(k := None)) = resizingOptions ops"
    using assms by (auto simp add: resizingOptions_def g)
  show ?thesis
  proof (cases "k = ''format''")
    case True
    have f1: "get_op (ops(k := None)) ''format'' = Undefined"
      using True by (simp add: get_op_def)
    have f2: "\<not> truthy (get_op ops ''format'')"
      using True assms by simp
    from f2 show ?thesis
      by (cases "get_op ops ''format''") (simp_all add: transform_calls_def r f1)
  next
    case False
    then have f: "get_op (ops(k := None)) ''format'' = get_op ops ''format''"
      by (simp add: get_op_def)
    show ?thesis
    proof (cases "k = ''quality''")
      case True
      have q1: "get_op (ops(k := None)) ''quality'' = Undefined"
        using True by (simp add: get_op_def)
      have q2: "\<not> truthy (get_op ops ''quality'')"
        using True assms by simp
      from q2 show ?thesis
        by (simp add: transform_calls_def r f q1 Let_def split: js_val.splits prod.splits)
    next
      case False
      then have q: "get_op (ops(k := None)) ''quality'' = get_op ops ''quality''"
        by (simp add: get_op_def)
      show ?thesis
        unfolding transform_calls_def r f q by (rule refl)
    qed
  qed
qed

lemma resize_in_transform_calls:
  "Resize (resizingOptions ops) \<in> set (fst (transform_calls ct ops))"
  by (simp add: transform_calls_def Let_def split: js_val.splits prod.splits)

lemma parseInt_string_no_digit:
  assumes "\<not> is_js_whitespace c" and "c \<noteq> CHR ''+''" and "c \<noteq> CHR ''-''"
    and "radix_digit 10 c = None"
  shows "parseInt_string (c # cs) = NaN"
proof -
  have z: "c \<noteq> CHR ''0''"
    using assms(4) by (auto simp add: radix_digit_def digit_value_def)
  have d: "dropWhile is_js_whitespace (c # cs) = c # cs"
    using assms(1) by simp
  have p: "digits_prefix 10 (c # cs) = []"
    using assms(4) by simp
  show ?thesis
    unfolding parseInt_string_def d Let_def
    using assms(2,3) z p by (cases cs) simp_all
qed

text \<open>
  Claim C3, as stated, fails: for the token \<^verbatim>\<open>width=abc\<close> the engine is called with
  \<^verbatim>\<open>resize({width: NaN})\<close>, not with the calls of a token that has no width, and
  with an engine that wants a positive integer the answer is 500.
\<close>

theorem non_numeric_width_not_dropped:
  "fst (transform_calls (Str ''image/jpeg'') (parse_operations ''width=abc''))
     = [Rotate, Resize \<lparr>width = Some NaN, height = None\<rparr>]
   \<and> fst (transform_calls (Str ''image/jpeg'') ((parse_operations ''width=abc'')(''width'' := None)))
     = [Rotate, Resize \<lparr>width = None, height = None\<rparr>]
   \<and> fst (handler test_config test_world
        (test_event ok_headers (Str ''GET'') (Str ''/images/rio/1.jpg/width=abc'')))
     = Returned \<lparr>statusCode = 500, body = Text ''error transforming image'',
                 isBase64Encoded = None, response_headers = None\<rparr>"
  by (simp add: run_defs)

text \<open>
  Claim C3, amended. A key whose value is missing or empty is dropped: the calls are
  those of the operations without the key. A non-empty \<^verbatim>\<open>width\<close> or \<^verbatim>\<open>height\<close>
  is never dropped, whatever its type: \<^verbatim>\<open>resize\<close> gets \<^verbatim>\<open>parseInt\<close> of the
  value, which is \<^verbatim>\<open>NaN\<close> when the value starts with a character that is no digit,
  no sign and no white space. The handler checks nothing itself: it answers 500
  \<^verbatim>\<open>error transforming image\<close> exactly when the engine rejects the calls.
\<close>

theorem non_numeric_dimension_reaches_engine:
  assumes "truthy (header ev ''x-origin-secret-header'')"
    and "header ev ''x-origin-secret-header'' = SECRET_KEY cfg"
    and "requestContext ev = Some rc" and "http rc = Some h"
    and "method h = Str ''GET''" and "path h = Str p"
    and "s3_getObject w \<lparr>Bucket = S3_ORIGINAL_IMAGE_BUCKET cfg,
                          Key = join ''/'' (tl (butlast (split_on CHR ''/'' p)))\<rparr> = Inr img"
    and "sharp_constructor w (Body img) = None"
    and "transform_calls (ContentType img) (parse_operations (last (split_on CHR ''/'' p)))
           = (calls, ct)"
    and "d = ''width'' \<or> d = ''height''"
    and "get_op (parse_operations (last (split_on CHR ''/'' p))) d = Str v"
    and "v \<noteq> []"
  shows "(\<exists>opts. Resize opts \<in> set calls
            \<and> (if d = ''width'' then width opts else height opts) = Some (parseInt_string v))
         \<and> (\<not> is_js_whitespace (hd v) \<and> hd v \<noteq> CHR ''+'' \<and> hd v \<noteq> CHR ''-''
               \<and> radix_digit 10 (hd v) = None
              \<longrightarrow> parseInt_string v = NaN)
         \<and> CallToBuffer calls \<in> set (snd (handler cfg w ev))
         \<and> ((\<exists>e. sharp_toBuffer w (Body img) calls = Inl e)
              = (fst (handler cfg w ev) =
                   Returned \<lparr>statusCode = 500, body = Text ''error transforming image'',
                             isBase64Encoded = None, response_headers = None\<rparr>))
         \<and> (\<not> truthy (get_op ops' k)
              \<longrightarrow> transform_calls ct' (ops'(k := None)) = transform_calls ct' ops')"
proof -
  let ?ops = "parse_operations (last (split_on CHR ''/'' p))"
  have "Resize (resizingOptions ?ops) \<in> set calls"
    using resize_in_transform_calls [of ?ops "ContentType img"] assms(9) by simp
  moreover have "(if d = ''width'' then width (resizingOptions ?ops)
                  else height (resizingOptions ?ops)) = Some (parseInt_string v)"
    using assms(10-12) by (auto simp add: resizingOptions_def)
  ultimately have a: "\<exists>opts. Resize opts \<in> set calls
            \<and> (if d = ''width'' then width opts else height opts) = Some (parseInt_string v)"
    by blast
  obtain c cs where v: "v = c # cs"
    using assms(12) by (cases v) auto
  have n: "\<not> is_js_whitespace (hd v) \<and> hd v \<noteq> CHR ''+'' \<and> hd v \<noteq> CHR ''-''
               \<and> radix_digit 10 (hd v) = None
              \<longrightarrow> parseInt_string v = NaN"
    using parseInt_string_no_digit [of c cs] by (simp add: v)
  have hd: "handler cfg w ev =
          process_image cfg w (join ''/'' (tl (butlast (split_on CHR ''/'' p))))
            (last (split_on CHR ''/'' p))"
    using assms(1-6) by (rule handler_get)
  have b: "CallToBuffer calls \<in> set (snd (handler cfg w ev))
         \<and> ((\<exists>e. sharp_toBuffer w (Body img) calls = Inl e)
              = (fst (handler cfg w ev) =
                   Returned \<lparr>statusCode = 500, body = Text ''error transforming image'',
                             isBase64Encoded = None, response_headers = None\<rparr>))"
  proof (cases "sharp_toBuffer w (Body img) calls")
    case (Inl e)
    from process_image_rejected [OF assms(7-9) Inl] hd Inl show ?thesis
      by (simp add: sendError_def)
  next
    case (Inr out)
    from process_image_transformed [OF assms(7-9) Inr] hd Inr show ?thesis
      by (simp add: upload_and_respond_not_transform_error)
  qed
  have c: "\<not> truthy (get_op ops' k)
              \<longrightarrow> transform_calls ct' (ops'(k := None)) = transform_calls ct' ops'"
    by (simp add: falsy_operation_dropped)
  from a n b c show ?thesis by blast
qed

theorem non_numeric_dimension_reaches_engine_witness:
  "get_op (parse_operations ''width=abc'') ''width'' = Str ''abc''
   \<and> parseInt_string ''abc'' = NaN
   \<and> CallToBuffer [Rotate, Resize \<lparr>width = Some NaN, height = None\<rparr>]
       \<in> set (snd (handler test_config test_world
            (test_event ok_headers (Str ''GET'') (Str ''/images/rio/1.jpg/width=abc''))))
   \<and> sharp_toBuffer test_world [255, 216, 255]
        [Rotate, Resize \<lparr>width = Some NaN, height = None\<rparr>] = Inl (JsError ''invalid parameter'')
   \<and> fst (handler test_config test_world
        (test_event ok_headers (Str ''GET'') (Str ''/images/rio/1.jpg/width=abc'')))
     = Returned \<lparr>statusCode = 500, body = Text ''error transforming image'',
                 isBase64Encoded = None, response_headers = None\<rparr>
   \<and> transform_calls (Str ''image/jpeg'') ((parse_operations ''width='')(''width'' := None))
     = transform_calls (Str ''image/jpeg'') (parse_operations ''width='')
   \<and> fst (transform_calls (Str ''image/jpeg'') (parse_operations ''width=200px''))
     = [Rotate, Resize \<lparr>width = Some (Num 200), height = None\<rparr>]
   \<and> status_of (fst (handler test_config test_world
        (test_event ok_headers (Str ''GET'') (Str ''/images/rio/1.jpg/width=200px'')))) = Some 200"
proof -
  have px: "fst (transform_calls (Str ''image/jpeg'') (parse_operations ''width=200px''))
     = [Rotate, Resize \<lparr>width = Some (Num 200), height = None\<rparr>]"
    "status_of (fst (handler test_config test_world
        (test_event ok_headers (Str ''GET'') (Str ''/images/rio/1.jpg/width=200px'')))) = Some 200"
    by (simp_all add: run_defs)
  have s: "split_on CHR ''/'' ''/images/rio/1.jpg/width=abc''
             = [[], ''images'', ''rio'', ''1.jpg'', ''width=abc'']"
    by simp
  have g: "s3_getObject test_world
             \<lparr>Bucket = S3_ORIGINAL_IMAGE_BUCKET test_config,
              Key = join ''/'' (tl (butlast (split_on CHR ''/'' ''/images/rio/1.jpg/width=abc'')))\<rparr>
           = Inr \<lparr>Body = [255, 216, 255], ContentType = Str ''image/jpeg''\<rparr>"
    by (simp add: s test_world_def)
  have c: "sharp_constructor test_world
             (Body \<lparr>Body = [255, 216, 255], ContentType = Str ''image/jpeg''\<rparr>) = None"
    by (simp add: test_world_def)
  have t: "transform_calls (ContentType \<lparr>Body = [255, 216, 255], ContentType = Str ''image/jpeg''\<rparr>)
             (parse_operations (last (split_on CHR ''/'' ''/images/rio/1.jpg/width=abc'')))
           = ([Rotate, Resize \<lparr>width = Some NaN, height = None\<rparr>], Str ''image/jpeg'')"
    by (simp add: s run_defs)
  have d: "''width'' = ''width'' \<or> ''width'' = ''height''"
    by simp
  have v: "get_op (parse_operations (last (split_on CHR ''/'' ''/images/rio/1.jpg/width=abc'')))
             ''width'' = Str ''abc''"
    by (simp add: s parse_operations_def assign_operation_def get_op_def)
  have ne: "''abc'' \<noteq> []"
    by simp
  have nd: "\<not> is_js_whitespace (hd ''abc'') \<and> hd ''abc'' \<noteq> CHR ''+'' \<and> hd ''abc'' \<noteq> CHR ''-''
               \<and> radix_digit 10 (hd ''abc'') = None"
    by (simp add: is_js_whitespace_def radix_digit_def digit_value_def)
  have e: "sharp_toBuffer test_world [255, 216, 255]
        [Rotate, Resize \<lparr>width = Some NaN, height = None\<rparr>] = Inl (JsError ''invalid parameter'')"
    by (simp add: test_world_def test_sharp_def)
  have f: "\<not> truthy (get_op (parse_operations ''width='') ''width'')"
    by (simp add: parse_operations_def assign_operation_def get_op_def)
  let ?h = "\<lparr>method = Str ''GET'', path = Str ''/images/rio/1.jpg/width=abc''\<rparr>"
  let ?rc = "\<lparr>http = Some ?h\<rparr>"
  let ?ev = "test_event ok_headers (Str ''GET'') (Str ''/images/rio/1.jpg/width=abc'')"
  have e1: "truthy (header ?ev ''x-origin-secret-header'')"
    and e2: "header ?ev ''x-origin-secret-header'' = SECRET_KEY test_config"
    and e3: "requestContext ?ev = Some ?rc"
    by (rule test_event_ok)+
  have e4: "http ?rc = Some ?h" and e5: "method ?h = Str ''GET''"
    and e6: "path ?h = Str ''/images/rio/1.jpg/width=abc''"
    by simp_all
  note r = non_numeric_dimension_reaches_engine [OF e1 e2 e3 e4 e5 e6 g c t d v ne,
      of "parse_operations ''width=''" "''width''" "Str ''image/jpeg''"]
  have r1: "parseInt_string ''abc'' = NaN"
    using r [THEN conjunct2, THEN conjunct1] nd by blast
  have r2: "CallToBuffer [Rotate, Resize \<lparr>width = Some NaN, height = None\<rparr>]
       \<in> set (snd (handler test_config test_world ?ev))"
    using r [THEN conjunct2, THEN conjunct2, THEN conjunct1] .
  have r3: "fst (handler test_config test_world ?ev)
     = Returned \<lparr>statusCode = 500, body = Text ''error transforming image'',
                 isBase64Encoded = None, response_headers = None\<rparr>"
    using r [THEN conjunct2, THEN conjunct2, THEN conjunct2, THEN conjunct1] e by simp
  have r4: "transform_calls (Str ''image/jpeg'') ((parse_operations ''width='')(''width'' := None))
     = transform_calls (Str ''image/jpeg'') (parse_operations ''width='')"
    using r [THEN conjunct2, THEN conjunct2, THEN conjunct2, THEN conjunct2] f by blast
  have v': "get_op (parse_operations ''width=abc'') ''width'' = Str ''abc''"
    using v by (simp add: s)
  from v' r1 r2 e r3 r4 px show ?thesis
    by (simp only: simp_thms)
qed

section \<open>An unrecognized format\<close>

text \<open>
  Claim C2 at the token \<^verbatim>\<open>format=bmp,quality=50\<close>: the switch picks
  \<^verbatim>\<open>image/jpeg\<close> and passes the quality, but \<^verbatim>\<open>toFormat\<close> is called with
  \<^verbatim>\<open>bmp\<close>, not with \<^verbatim>\<open>jpeg\<close>. With an engine that knows no such format the
  answer is 500, where \<^verbatim>\<open>format=jpeg\<close> answers 200; with a format the engine knows and
  the switch does not (\<^verbatim>\<open>tiff\<close>), the bytes of that format are sent as
  \<^verbatim>\<open>image/jpeg\<close>.
\<close>

theorem unrecognized_format_reaches_encoder:
  "transform_calls (Str ''image/png'') (parse_operations ''format=bmp,quality=50'')
     = ([Rotate, Resize \<lparr>width = None, height = None\<rparr>, ToFormat ''bmp'' (Some (Num 50))],
        Str ''image/jpeg'')
   \<and> transform_calls (Str ''image/png'') (parse_operations ''format=jpeg,quality=50'')
     = ([Rotate, Resize \<lparr>width = None, height = None\<rparr>, ToFormat ''jpeg'' (Some (Num 50))],
        Str ''image/jpeg'')
   \<and> status_of (fst (handler test_config test_world
        (test_event ok_headers (Str ''GET'') (Str ''/images/rio/1.jpg/format=bmp,quality=50''))))
     = Some 500
   \<and> status_of (fst (handler test_config test_world
        (test_event ok_headers (Str ''GET'') (Str ''/images/rio/1.jpg/format=jpeg,quality=50''))))
     = Some 200
   \<and> fst (handler test_config test_world
        (test_event ok_headers (Str ''GET'') (Str ''/images/rio/1.jpg/format=tiff'')))
     = Returned \<lparr>statusCode = 200,
         body = Base64 [255, 216, 255, 1, 2, 0, 0, 3, 116, 105, 102, 102, 0],
         isBase64Encoded = Some True,
         response_headers = Some [(''Content-Type'', Str ''image/jpeg''),
                                  (''Cache-Control'', Str ''max-age=31622400'')]\<rparr>"
  by (simp add: run_defs)

theorem unrecognized_format_reaches_encoder_witness:
  "fst (transform_calls (Str ''image/png'') (parse_operations ''format=bmp,quality=50''))
     \<noteq> fst (transform_calls (Str ''image/png'') (parse_operations ''format=jpeg,quality=50''))"
  using unrecognized_format_reaches_encoder by simp

end
